theory Spec2Isabelle
  imports Main "HOL-Library.Word"
begin

unbundle bit_operations_syntax

section \<open>The register transport of cyttsp4\_spi.c\<close>

text \<open>
  The development embeds the transfer routine \<^verbatim>\<open>cyttsp4_spi_xfer\<close>, the two block
  operations built on it and the two adapter entry points of
  \<^verbatim>\<open>drivers/input/touchscreen/cyttsp4/cyttsp4_spi.c\<close>. Debug printing
  (\<^verbatim>\<open>dev_vdbg\<close>, \<^verbatim>\<open>dev_err\<close>, \<^verbatim>\<open>_cyttsp4_spi_pr_buf\<close>) has no effect on
  results and is left out.

  Machine types: \<^verbatim>\<open>u8\<close> is an 8-bit word; \<^verbatim>\<open>int\<close> and \<^verbatim>\<open>unsigned\<close> are 32-bit
  words. A length travels as \<^verbatim>\<open>int\<close>, then \<^verbatim>\<open>size_t\<close>, then \<^verbatim>\<open>int\<close> again from
  the entry points to the transfer routine, which gives back the same 32 bits. The sum
  in the size checks is an \<^verbatim>\<open>int\<close> addition: \<open>+\<close> on the word wraps around, as the
  compiled kernel does, and the comparison is the signed one (\<open>word_sless\<close>). Return
  codes are only compared with 0 and passed on, never computed with: they are plain
  integers.
\<close>

type_synonym u8 = "8 word"
type_synonym cint = "32 word"

subsection \<open>Constants\<close>

definition CY_SPI_WR_OP :: u8 where "CY_SPI_WR_OP = 0x00"
definition CY_SPI_RD_OP :: u8 where "CY_SPI_RD_OP = 0x01"
definition CY_SPI_A8_BIT :: u8 where "CY_SPI_A8_BIT = 0x02"
definition CY_SPI_WR_HEADER_BYTES :: cint where "CY_SPI_WR_HEADER_BYTES = 2"
definition CY_SPI_RD_HEADER_BYTES :: cint where "CY_SPI_RD_HEADER_BYTES = 1"
definition CY_SPI_SYNC_BYTE :: nat where "CY_SPI_SYNC_BYTE = 0"
definition CY_SPI_SYNC_ACK :: u8 where "CY_SPI_SYNC_ACK = 0x62"
definition CY_SPI_DATA_SIZE :: cint where "CY_SPI_DATA_SIZE = 3 * 256"
definition CY_SPI_MAX_REG :: cint where "CY_SPI_MAX_REG = 512"

definition CY_SPI_MAX_HEADER_BYTES :: nat where
  "CY_SPI_MAX_HEADER_BYTES = max (unat CY_SPI_WR_HEADER_BYTES) (unat CY_SPI_RD_HEADER_BYTES)"

text \<open>
  Modelled from the spec: the error numbers behind its results InvalidArgument
  (\<^verbatim>\<open>EINVAL\<close>) and ack mismatch (\<^verbatim>\<open>EIO\<close>), which the file returns negated. The
  header \<^verbatim>\<open>linux/errno.h\<close> that defines them is not among the sources; the values are
  the kernel's.
\<close>

definition EIO :: int where "EIO = 5"
definition EINVAL :: int where "EINVAL = 22"

subsection \<open>The bus\<close>

text \<open>
  Modelled from the spec: the segments handed to the duplex-exchange primitive, declared
  in \<^verbatim>\<open>linux/spi/spi.h\<close>, which is not among the sources. A
  \<^verbatim>\<open>struct spi_transfer\<close> has the fields the driver assigns: a null pointer is
  \<open>None\<close>, a buffer is the list of its bytes, \<open>len\<close> is the unsigned byte count. A
  transfer with only \<open>tx_buf\<close> transmits, one with only \<open>rx_buf\<close> receives, one with
  both does both. A \<^verbatim>\<open>struct spi_message\<close> is the list of the transfers chained to it
  with \<^verbatim>\<open>spi_message_add_tail\<close>, one bus transaction.
\<close>

record spi_transfer =
  tx_buf :: "u8 list option"
  rx_buf :: "u8 list option"
  len :: cint

type_synonym spi_message = "spi_transfer list"

text \<open>
  Modelled from the spec: the result of the duplex-exchange primitive. One call of
  \<^verbatim>\<open>spi_sync\<close> gives back its return code (negative for a transport error) and the
  bytes clocked in during the header transfer and during the data transfer.
\<close>

record spi_reply =
  status :: int
  hdr_rx :: "u8 list"
  data_rx :: "u8 list"

text \<open>
  \<^verbatim>\<open>spi_sync\<close> belongs to the SPI core, not to this file. The bus is a parameter of
  every function below: any function from the messages submitted so far (the current one
  last) to a reply, so that a reply may depend on everything the peripheral has been
  sent. The list of submitted messages is the state threaded through the driver; each
  call of \<^verbatim>\<open>spi_sync\<close> appends one message, and the growth of the list counts the bus
  exchanges.
\<close>

type_synonym spi_bus = "spi_message list \<Rightarrow> spi_reply"

definition spi_sync :: "spi_bus \<Rightarrow> spi_message list \<Rightarrow> spi_message \<Rightarrow> spi_reply \<times> spi_message list" where
  "spi_sync bus log msg = (bus (log @ [msg]), log @ [msg])"

text \<open>
  The controller stores the first \<open>n\<close> received bytes at the start of a receive buffer
  and leaves the rest of the buffer as it was.
\<close>

definition rx_into :: "u8 list \<Rightarrow> nat \<Rightarrow> u8 list \<Rightarrow> u8 list" where
  "rx_into old n rx =
     (let new = take (min n (length old)) rx in new @ drop (length new) old)"

subsection \<open>cyttsp4\_spi\_xfer\<close>

text \<open>Header bytes 0 and 1 of a write, lines 108 to 115. \<open>reg\<close> is a \<^verbatim>\<open>u8\<close>.\<close>

definition wr_header :: "u8 \<Rightarrow> u8 list" where
  "wr_header reg =
     [if 255 < uint reg then CY_SPI_WR_OP + CY_SPI_A8_BIT else CY_SPI_WR_OP,
      word_of_int (uint reg mod 256)]"

text \<open>Header byte 0 of a read, line 148; byte 1 keeps the 0 of the \<^verbatim>\<open>memset\<close>.\<close>

definition rd_header :: "u8 list" where
  "rd_header = [CY_SPI_RD_OP, 0]"

text \<open>
  \<^verbatim>\<open>xfer[0]\<close>: transmits from \<^verbatim>\<open>wr_hdr_buf\<close> and receives into the zeroed
  \<^verbatim>\<open>rd_hdr_buf\<close>, lines 86 to 94.
\<close>

definition hdr_xfer :: "u8 list \<Rightarrow> cint \<Rightarrow> spi_transfer" where
  "hdr_xfer wr_hdr_buf n =
     \<lparr>tx_buf = Some wr_hdr_buf, rx_buf = Some (replicate CY_SPI_MAX_HEADER_BYTES 0), len = n\<rparr>"

text \<open>
  The first \<^verbatim>\<open>switch\<close>, lines 96 to 165: either the early exit with its return
  code, or the message to submit.
\<close>

definition xfer_msg :: "u8 \<Rightarrow> u8 \<Rightarrow> u8 list option \<Rightarrow> cint \<Rightarrow> int + spi_message" where
  "xfer_msg op reg buf length' =
     (if op = CY_SPI_WR_OP then
        if word_sless CY_SPI_DATA_SIZE (length' + CY_SPI_WR_HEADER_BYTES) then Inl (- EINVAL)
        else Inr (hdr_xfer (wr_header reg) CY_SPI_WR_HEADER_BYTES #
                  (case buf of
                     None \<Rightarrow> []
                   | Some b \<Rightarrow> [\<lparr>tx_buf = Some b, rx_buf = None, len = length'\<rparr>]))
      else if op = CY_SPI_RD_OP then
        if buf = None then Inl (- EINVAL)
        else if word_sless CY_SPI_DATA_SIZE (length' + CY_SPI_RD_HEADER_BYTES) then Inl (- EINVAL)
        else Inr [hdr_xfer rd_header CY_SPI_RD_HEADER_BYTES,
                  \<lparr>tx_buf = None, rx_buf = buf, len = length'\<rparr>]
      else Inl (- EINVAL))"

text \<open>\<^verbatim>\<open>rd_hdr_buf\<close> after the exchange.\<close>

definition rd_hdr_buf :: "spi_message \<Rightarrow> spi_reply \<Rightarrow> u8 list" where
  "rd_hdr_buf msg reply =
     (case msg of
        [] \<Rightarrow> replicate CY_SPI_MAX_HEADER_BYTES 0
      | t # _ \<Rightarrow> rx_into (replicate CY_SPI_MAX_HEADER_BYTES 0) (unat (len t)) (hdr_rx reply))"

text \<open>The caller's buffer after the exchange: written only by a receiving data transfer.\<close>

definition data_buf :: "spi_message \<Rightarrow> spi_reply \<Rightarrow> u8 list option \<Rightarrow> u8 list option" where
  "data_buf msg reply buf =
     (case msg of
        [_, t] \<Rightarrow> (case rx_buf t of
                     None \<Rightarrow> buf
                   | Some b \<Rightarrow> Some (rx_into b (unat (len t)) (data_rx reply)))
      | _ \<Rightarrow> buf)"

text \<open>The acknowledge check, lines 197 to 226.\<close>

definition ack_rc :: "u8 list \<Rightarrow> int" where
  "ack_rc hdr = (if hdr ! CY_SPI_SYNC_BYTE \<noteq> CY_SPI_SYNC_ACK then 1 else 0)"

text \<open>
  What a call leaves behind: the return code, the caller's buffer and the messages the
  bus has seen.
\<close>

record outcome =
  ret :: int
  buf_out :: "u8 list option"
  bus_log :: "spi_message list"

text \<open>
  The whole routine. The return code of \<^verbatim>\<open>spi_sync\<close> is assigned to \<^verbatim>\<open>rc\<close> at line
  167 and, when negative, only printed; both branches of the acknowledge check then
  assign \<^verbatim>\<open>rc\<close> again.
\<close>

definition cyttsp4_spi_xfer ::
  "spi_bus \<Rightarrow> spi_message list \<Rightarrow> u8 \<Rightarrow> u8 \<Rightarrow> u8 list option \<Rightarrow> cint \<Rightarrow> outcome" where
  "cyttsp4_spi_xfer bus log op reg buf length' =
     (case xfer_msg op reg buf length' of
        Inl rc \<Rightarrow> \<lparr>ret = rc, buf_out = buf, bus_log = log\<rparr>
      | Inr msg \<Rightarrow>
          (let (reply, log') = spi_sync bus log msg
           in \<lparr>ret = ack_rc (rd_hdr_buf msg reply),
               buf_out = data_buf msg reply buf,
               bus_log = log'\<rparr>))"

subsection \<open>The block operations and the adapter entry points\<close>

text \<open>Lines 232 to 262. The address phase is a write transfer with a null buffer.\<close>

definition cyttsp4_spi_read_block_data ::
  "spi_bus \<Rightarrow> spi_message list \<Rightarrow> u8 \<Rightarrow> cint \<Rightarrow> u8 list option \<Rightarrow> outcome" where
  "cyttsp4_spi_read_block_data bus log addr length' data =
     (let w = cyttsp4_spi_xfer bus log CY_SPI_WR_OP addr None 0
      in if ret w < 0 then \<lparr>ret = ret w, buf_out = data, bus_log = bus_log w\<rparr>
         else
           (let r = cyttsp4_spi_xfer bus (bus_log w) CY_SPI_RD_OP addr data length'
            in if ret r < 0 then r
               else if 0 < ret r then r\<lparr>ret := - EIO\<rparr>
               else r))"

text \<open>Lines 264 to 286.\<close>

definition cyttsp4_spi_write_block_data ::
  "spi_bus \<Rightarrow> spi_message list \<Rightarrow> u8 \<Rightarrow> cint \<Rightarrow> u8 list option \<Rightarrow> outcome" where
  "cyttsp4_spi_write_block_data bus log addr length' data =
     (let r = cyttsp4_spi_xfer bus log CY_SPI_WR_OP addr data length'
      in if ret r < 0 then r
         else if 0 < ret r then r\<lparr>ret := - EIO\<rparr>
         else r)"

text \<open>
  Lines 288 to 316. The entry points take the device mutex and the runtime-PM reference
  around the block operation; on one thread of control they add nothing to its result.
\<close>

definition cyttsp4_spi_write ::
  "spi_bus \<Rightarrow> spi_message list \<Rightarrow> u8 \<Rightarrow> u8 list option \<Rightarrow> cint \<Rightarrow> outcome" where
  "cyttsp4_spi_write bus log addr buf size' = cyttsp4_spi_write_block_data bus log addr size' buf"

definition cyttsp4_spi_read ::
  "spi_bus \<Rightarrow> spi_message list \<Rightarrow> u8 \<Rightarrow> u8 list option \<Rightarrow> cint \<Rightarrow> outcome" where
  "cyttsp4_spi_read bus log addr buf size' = cyttsp4_spi_read_block_data bus log addr size' buf"

subsection \<open>Test buses\<close>

text \<open>A bus that acknowledges every frame and reports a transport error each time.\<close>

definition mock_ack_err :: spi_bus where
  "mock_ack_err h = \<lparr>status = - EIO, hdr_rx = [0x62, 0x00], data_rx = [0x11, 0x22, 0x33, 0x44]\<rparr>"

text \<open>
  A peripheral that is not ready for the first frame it sees and acknowledges from the
  second on; the transport itself reports no error.
\<close>

definition mock_nack_then_ack :: spi_bus where
  "mock_nack_then_ack h =
     \<lparr>status = 0, hdr_rx = [if length h = 1 then 0x00 else 0x62, 0x00],
      data_rx = [0x11, 0x22, 0x33, 0x44]\<rparr>"

text \<open>A bus that acknowledges every frame and reports success.\<close>

definition mock_ack :: spi_bus where
  "mock_ack h = \<lparr>status = 0, hdr_rx = [0x62, 0x00], data_rx = [0x11, 0x22, 0x33, 0x44]\<rparr>"

text \<open>A bus on which every exchange times out (\<open>- ETIMEDOUT\<close>) and nothing is acknowledged.\<close>

definition mock_nack_timeout :: spi_bus where
  "mock_nack_timeout h = \<lparr>status = - 110, hdr_rx = [0x00, 0x00], data_rx = []\<rparr>"

text \<open>
  The conversion C applies to an integer argument passed for the \<^verbatim>\<open>u8 addr\<close>
  parameter of the entry points and for \<^verbatim>\<open>u8 reg\<close>: reduction modulo 256.
\<close>

definition u8_arg :: "nat \<Rightarrow> u8" where
  "u8_arg a = word_of_nat a"

section \<open>Basic facts\<close>

lemmas consts_defs = CY_SPI_WR_OP_def CY_SPI_RD_OP_def CY_SPI_A8_BIT_def CY_SPI_WR_HEADER_BYTES_def
  CY_SPI_RD_HEADER_BYTES_def CY_SPI_SYNC_BYTE_def CY_SPI_SYNC_ACK_def CY_SPI_DATA_SIZE_def
  CY_SPI_MAX_HEADER_BYTES_def EIO_def EINVAL_def

lemmas model_defs = cyttsp4_spi_read_def cyttsp4_spi_write_def cyttsp4_spi_read_block_data_def
  cyttsp4_spi_write_block_data_def cyttsp4_spi_xfer_def xfer_msg_def spi_sync_def hdr_xfer_def
  wr_header_def rd_header_def rd_hdr_buf_def data_buf_def ack_rc_def rx_into_def

subsection \<open>Integer arithmetic of the size checks\<close>

lemma sint_add_2:
  fixes n :: cint
  assumes "sint n + 2 < 2 ^ 31" "0 \<le> sint n"
  shows "sint (n + 2) = sint n + 2"
  using assms
  by (simp add: sint_word_ariths signed_take_bit_int_eq_self_iff)

lemma sint_add_1:
  fixes n :: cint
  assumes "sint n + 1 < 2 ^ 31" "0 \<le> sint n"
  shows "sint (n + 1) = sint n + 1"
  using assms
  by (simp add: sint_word_ariths signed_take_bit_int_eq_self_iff)

lemma oversize_wr:
  "768 < sint n + 2 \<Longrightarrow> sint n + 2 < 2 ^ 31 \<Longrightarrow>
   word_sless CY_SPI_DATA_SIZE (n + CY_SPI_WR_HEADER_BYTES)"
  by (simp add: consts_defs word_sless_alt sint_add_2)

lemma oversize_rd:
  "768 < sint n + 1 \<Longrightarrow> sint n + 1 < 2 ^ 31 \<Longrightarrow>
   word_sless CY_SPI_DATA_SIZE (n + CY_SPI_RD_HEADER_BYTES)"
  by (simp add: consts_defs word_sless_alt sint_add_1)

lemma fits_wr:
  "0 \<le> sint n \<Longrightarrow> sint n + 2 \<le> 768 \<Longrightarrow>
   \<not> word_sless CY_SPI_DATA_SIZE (n + CY_SPI_WR_HEADER_BYTES)"
  by (simp add: consts_defs word_sless_alt sint_add_2)

text \<open>
  Beyond that range the \<^verbatim>\<open>int\<close> sum wraps to a negative number and the check lets the
  length through: the statements about oversize lengths below are for sums within the
  range of \<^verbatim>\<open>int\<close>.
\<close>

lemma size_check_wraps:
  "\<not> word_sless CY_SPI_DATA_SIZE (0x7FFFFFFF + CY_SPI_WR_HEADER_BYTES)"
  by (simp add: consts_defs)

subsection \<open>An 8-bit register address\<close>

lemma u8_never_above_255: "\<not> 255 < uint (reg :: u8)"
proof -
  have "uint reg < 2 ^ LENGTH(8)" by (rule uint_lt2p)
  then show ?thesis by simp
qed

lemma u8_mod_256: "word_of_int (uint (reg :: u8) mod 256) = reg"
proof -
  have "uint reg < 2 ^ LENGTH(8)" by (rule uint_lt2p)
  then have "uint reg mod 256 = uint reg" by simp
  then show ?thesis by simp
qed

lemma wr_header_eq: "wr_header reg = [0, reg]"
  by (simp add: wr_header_def consts_defs u8_never_above_255 u8_mod_256)

subsection \<open>The two ways through the transfer routine\<close>

lemma xfer_run:
  "xfer_msg op reg buf n = Inr msg \<Longrightarrow>
   cyttsp4_spi_xfer bus log op reg buf n =
     \<lparr>ret = ack_rc (rd_hdr_buf msg (bus (log @ [msg]))),
      buf_out = data_buf msg (bus (log @ [msg])) buf,
      bus_log = log @ [msg]\<rparr>"
  by (simp add: cyttsp4_spi_xfer_def spi_sync_def)

lemma xfer_reject:
  "xfer_msg op reg buf n = Inl e \<Longrightarrow>
   cyttsp4_spi_xfer bus log op reg buf n = \<lparr>ret = e, buf_out = buf, bus_log = log\<rparr>"
  by (simp add: cyttsp4_spi_xfer_def)

lemma xfer_msg_Inl: "xfer_msg op reg buf n = Inl e \<Longrightarrow> e = - EINVAL"
  by (auto simp: xfer_msg_def split: if_splits)

lemma xfer_ret_cases: "ret (cyttsp4_spi_xfer bus log op reg buf n) \<in> {0, 1, - EINVAL}"
proof (cases "xfer_msg op reg buf n")
  case (Inl e)
  then show ?thesis by (simp add: xfer_reject xfer_msg_Inl [OF Inl])
next
  case (Inr msg)
  then show ?thesis by (simp add: xfer_run ack_rc_def)
qed

subsection \<open>The address phase of a read\<close>

lemma addr_msg:
  "xfer_msg CY_SPI_WR_OP addr None 0 = Inr [hdr_xfer (wr_header addr) CY_SPI_WR_HEADER_BYTES]"
  by (simp add: xfer_msg_def consts_defs)

lemma addr_phase:
  "cyttsp4_spi_xfer bus log CY_SPI_WR_OP addr None 0 =
     \<lparr>ret = ack_rc (rd_hdr_buf [hdr_xfer (wr_header addr) CY_SPI_WR_HEADER_BYTES]
                      (bus (log @ [[hdr_xfer (wr_header addr) CY_SPI_WR_HEADER_BYTES]]))),
      buf_out = None,
      bus_log = log @ [[hdr_xfer (wr_header addr) CY_SPI_WR_HEADER_BYTES]]\<rparr>"
  by (simp add: xfer_run [OF addr_msg] data_buf_def)

lemma addr_phase_not_negative: "\<not> ret (cyttsp4_spi_xfer bus log CY_SPI_WR_OP addr None 0) < 0"
  by (simp add: addr_phase ack_rc_def)

text \<open>
  The address phase never returns a negative code, so the early return of line 244 is
  never taken and the data phase always follows.
\<close>

lemma read_block_unfold:
  "cyttsp4_spi_read_block_data bus log addr n data =
     (let r = cyttsp4_spi_xfer bus (log @ [[hdr_xfer (wr_header addr) CY_SPI_WR_HEADER_BYTES]])
                CY_SPI_RD_OP addr data n
      in if ret r < 0 then r else if 0 < ret r then r\<lparr>ret := - EIO\<rparr> else r)"
  using addr_phase_not_negative [of bus log addr]
  by (simp add: cyttsp4_spi_read_block_data_def Let_def addr_phase)

subsection \<open>The block operations\<close>

lemma write_block_unfold:
  "cyttsp4_spi_write bus log addr buf n =
     (let r = cyttsp4_spi_xfer bus log CY_SPI_WR_OP addr buf n
      in if ret r < 0 then r else if 0 < ret r then r\<lparr>ret := - EIO\<rparr> else r)"
  by (simp add: cyttsp4_spi_write_def cyttsp4_spi_write_block_data_def)

lemma block_ret:
  assumes "ret r \<in> {0, 1, - EINVAL}"
  shows "ret (if ret r < 0 then r else if 0 < ret r then r\<lparr>ret := - EIO\<rparr> else r) \<in> {0, - EIO, - EINVAL}"
  using assms by (auto simp: EINVAL_def EIO_def)

lemma write_ret_cases: "ret (cyttsp4_spi_write bus log addr buf n) \<in> {0, - EIO, - EINVAL}"
  unfolding write_block_unfold Let_def by (rule block_ret) (rule xfer_ret_cases)

lemma read_ret_cases: "ret (cyttsp4_spi_read bus log addr buf n) \<in> {0, - EIO, - EINVAL}"
  unfolding cyttsp4_spi_read_def read_block_unfold Let_def by (rule block_ret) (rule xfer_ret_cases)

lemma xfer_status_irrelevant:
  "cyttsp4_spi_xfer (\<lambda>h. (bus h)\<lparr>status := e h\<rparr>) log op reg buf n = cyttsp4_spi_xfer bus log op reg buf n"
proof (cases "xfer_msg op reg buf n")
  case (Inl e)
  then show ?thesis by (simp add: xfer_reject)
next
  case (Inr msg)
  then show ?thesis
    by (simp add: xfer_run rd_hdr_buf_def data_buf_def split: list.splits option.splits)
qed

lemma write_status_irrelevant:
  "cyttsp4_spi_write (\<lambda>h. (bus h)\<lparr>status := e h\<rparr>) log addr buf n = cyttsp4_spi_write bus log addr buf n"
  by (simp only: write_block_unfold xfer_status_irrelevant)

lemma read_status_irrelevant:
  "cyttsp4_spi_read (\<lambda>h. (bus h)\<lparr>status := e h\<rparr>) log addr buf n = cyttsp4_spi_read bus log addr buf n"
  by (simp only: cyttsp4_spi_read_def read_block_unfold xfer_status_irrelevant)

subsection \<open>Writes with a payload\<close>

lemma sint_of_nat_small: "k < 2 ^ 31 \<Longrightarrow> sint (word_of_nat k :: cint) = int k"
  by (simp add: signed_of_nat signed_take_bit_int_eq_self_iff)

lemma fits_data:
  assumes "length (data :: u8 list) + 2 \<le> 768"
  shows "\<not> word_sless CY_SPI_DATA_SIZE (word_of_nat (length data) + CY_SPI_WR_HEADER_BYTES)"
proof -
  from assms have "sint (word_of_nat (length data) :: cint) = int (length data)"
    by (intro sint_of_nat_small) simp
  with assms show ?thesis by (intro fits_wr) simp_all
qed

lemma write_msg:
  "\<not> word_sless CY_SPI_DATA_SIZE (n + CY_SPI_WR_HEADER_BYTES) \<Longrightarrow>
   xfer_msg CY_SPI_WR_OP addr (Some data) n =
     Inr [hdr_xfer (wr_header addr) CY_SPI_WR_HEADER_BYTES, \<lparr>tx_buf = Some data, rx_buf = None, len = n\<rparr>]"
  by (simp add: xfer_msg_def)

lemma block_log: "bus_log (if ret r < 0 then r else if 0 < ret r then r\<lparr>ret := e\<rparr> else r) = bus_log r"
  by simp

lemma block_buf: "buf_out (if ret r < 0 then r else if 0 < ret r then r\<lparr>ret := e\<rparr> else r) = buf_out r"
  by simp

lemma write_block_exchange:
  assumes "\<not> word_sless CY_SPI_DATA_SIZE (n + CY_SPI_WR_HEADER_BYTES)"
  shows "bus_log (cyttsp4_spi_write bus log addr (Some data) n) =
           log @ [[\<lparr>tx_buf = Some [0x00, addr], rx_buf = Some [0, 0], len = 2\<rparr>,
                   \<lparr>tx_buf = Some data, rx_buf = None, len = n\<rparr>]]"
    and "buf_out (cyttsp4_spi_write bus log addr (Some data) n) = Some data"
proof -
  let ?msg = "[hdr_xfer (wr_header addr) CY_SPI_WR_HEADER_BYTES, \<lparr>tx_buf = Some data, rx_buf = None, len = n\<rparr>]"
  have run: "cyttsp4_spi_xfer bus log CY_SPI_WR_OP addr (Some data) n =
     \<lparr>ret = ack_rc (rd_hdr_buf ?msg (bus (log @ [?msg]))),
      buf_out = data_buf ?msg (bus (log @ [?msg])) (Some data),
      bus_log = log @ [?msg]\<rparr>"
    by (rule xfer_run [OF write_msg [OF assms]])
  have hdr: "hdr_xfer (wr_header addr) CY_SPI_WR_HEADER_BYTES =
      \<lparr>tx_buf = Some [0x00, addr], rx_buf = Some [0, 0], len = 2\<rparr>"
    by (simp add: hdr_xfer_def wr_header_eq consts_defs)
  show "bus_log (cyttsp4_spi_write bus log addr (Some data) n) =
           log @ [[\<lparr>tx_buf = Some [0x00, addr], rx_buf = Some [0, 0], len = 2\<rparr>,
                   \<lparr>tx_buf = Some data, rx_buf = None, len = n\<rparr>]]"
    unfolding write_block_unfold Let_def block_log by (simp add: run hdr)
  show "buf_out (cyttsp4_spi_write bus log addr (Some data) n) = Some data"
    unfolding write_block_unfold Let_def block_buf by (simp add: run data_buf_def)
qed

subsection \<open>Writes without a payload and the first message of a read\<close>

lemma null_write_msg:
  "xfer_msg CY_SPI_WR_OP reg None n =
     (if word_sless CY_SPI_DATA_SIZE (n + CY_SPI_WR_HEADER_BYTES) then Inl (- EINVAL)
      else Inr [hdr_xfer (wr_header reg) CY_SPI_WR_HEADER_BYTES])"
  by (simp add: xfer_msg_def)

lemma read_block_log_prefix:
  "take (Suc (length log)) (bus_log (cyttsp4_spi_read_block_data bus log addr m data)) =
     log @ [[hdr_xfer (wr_header addr) CY_SPI_WR_HEADER_BYTES]]"
proof (cases "xfer_msg CY_SPI_RD_OP addr data m")
  case (Inl e)
  then show ?thesis
    unfolding read_block_unfold Let_def block_log by (simp add: xfer_reject)
next
  case (Inr msg)
  then show ?thesis
    unfolding read_block_unfold Let_def block_log by (simp add: xfer_run)
qed

subsection \<open>When the argument checks reject\<close>

lemma write_einval_iff:
  "(ret (cyttsp4_spi_write bus log addr buf n) = - EINVAL) =
     word_sless CY_SPI_DATA_SIZE (n + CY_SPI_WR_HEADER_BYTES)"
proof (cases "word_sless CY_SPI_DATA_SIZE (n + CY_SPI_WR_HEADER_BYTES)")
  case True
  then have "xfer_msg CY_SPI_WR_OP addr buf n = Inl (- EINVAL)" by (simp add: xfer_msg_def)
  with True show ?thesis
    by (simp add: write_block_unfold xfer_reject EINVAL_def)
next
  case False
  then obtain msg where "xfer_msg CY_SPI_WR_OP addr buf n = Inr msg" by (simp add: xfer_msg_def)
  with False show ?thesis
    by (simp add: write_block_unfold xfer_run ack_rc_def EINVAL_def EIO_def)
qed

lemma rd_op_neq_wr_op: "CY_SPI_RD_OP \<noteq> CY_SPI_WR_OP"
  by (simp add: consts_defs)

lemma read_msg_cases:
  "xfer_msg CY_SPI_RD_OP addr buf n =
     (if buf = None \<or> word_sless CY_SPI_DATA_SIZE (n + CY_SPI_RD_HEADER_BYTES) then Inl (- EINVAL)
      else Inr [hdr_xfer rd_header CY_SPI_RD_HEADER_BYTES, \<lparr>tx_buf = None, rx_buf = buf, len = n\<rparr>])"
  by (simp add: xfer_msg_def rd_op_neq_wr_op)

lemma read_rejected:
  assumes "buf = None \<or> word_sless CY_SPI_DATA_SIZE (n + CY_SPI_RD_HEADER_BYTES)"
  shows "cyttsp4_spi_read bus log addr buf n =
     \<lparr>ret = - EINVAL, buf_out = buf,
      bus_log = log @ [[hdr_xfer (wr_header addr) CY_SPI_WR_HEADER_BYTES]]\<rparr>"
proof -
  from assms have "xfer_msg CY_SPI_RD_OP addr buf n = Inl (- EINVAL)"
    by (simp add: read_msg_cases)
  then show ?thesis
    by (simp add: cyttsp4_spi_read_def read_block_unfold xfer_reject EINVAL_def)
qed

lemma read_einval_iff:
  "(ret (cyttsp4_spi_read bus log addr buf n) = - EINVAL) =
     (buf = None \<or> word_sless CY_SPI_DATA_SIZE (n + CY_SPI_RD_HEADER_BYTES))"
proof (cases "buf = None \<or> word_sless CY_SPI_DATA_SIZE (n + CY_SPI_RD_HEADER_BYTES)")
  case True
  then show ?thesis by (simp add: read_rejected)
next
  case False
  then obtain msg where "xfer_msg CY_SPI_RD_OP addr buf n = Inr msg" by (simp add: read_msg_cases)
  with False show ?thesis
    by (simp add: cyttsp4_spi_read_def read_block_unfold xfer_run ack_rc_def EINVAL_def EIO_def)
qed

lemma write_rejected:
  assumes "word_sless CY_SPI_DATA_SIZE (n + CY_SPI_WR_HEADER_BYTES)"
  shows "cyttsp4_spi_write bus log addr buf n = \<lparr>ret = - EINVAL, buf_out = buf, bus_log = log\<rparr>"
proof -
  from assms have "xfer_msg CY_SPI_WR_OP addr buf n = Inl (- EINVAL)" by (simp add: xfer_msg_def)
  then show ?thesis by (simp add: write_block_unfold xfer_reject EINVAL_def)
qed

lemma wr_msg_hd:
  "xfer_msg CY_SPI_WR_OP reg buf n = Inr msg \<Longrightarrow>
   msg \<noteq> [] \<and> hd msg = hdr_xfer (wr_header reg) CY_SPI_WR_HEADER_BYTES"
  by (auto simp: xfer_msg_def split: if_splits)

text \<open>
  A missing acknowledge in a write, or in the data phase of a read, is reported as
  \<open>- EIO\<close>.
\<close>

lemma nack_gives_EIO:
  "(xfer_msg CY_SPI_WR_OP addr buf n = Inr msg \<and>
    rd_hdr_buf msg (bus (log @ [msg])) ! CY_SPI_SYNC_BYTE \<noteq> CY_SPI_SYNC_ACK \<longrightarrow>
      ret (cyttsp4_spi_write bus log addr buf n) = - EIO) \<and>
   (xfer_msg CY_SPI_RD_OP addr buf n = Inr msg \<and>
    rd_hdr_buf msg (bus (log @ [[hdr_xfer (wr_header addr) CY_SPI_WR_HEADER_BYTES], msg]))
      ! CY_SPI_SYNC_BYTE \<noteq> CY_SPI_SYNC_ACK \<longrightarrow>
      ret (cyttsp4_spi_read bus log addr buf n) = - EIO)"
  by (simp add: write_block_unfold cyttsp4_spi_read_def read_block_unfold xfer_run ack_rc_def)

section \<open>The claims\<close>

text \<open>
  C1. In every phase of both operations (each phase is one run of the transfer routine
  that gets past its argument checks and submits a message), if byte 0 of the response
  header is the acknowledge constant 0x62, the phase returns 0, whatever return code
  \<open>e\<close> the bus reported for the exchange: the exchange is performed and its code is
  not returned in place of the acknowledge check.
\<close>

theorem ack_means_success:
  assumes "xfer_msg op reg buf n = Inr msg"
    and "bus (log @ [msg]) = \<lparr>status = e, hdr_rx = h, data_rx = d\<rparr>"
    and "rd_hdr_buf msg \<lparr>status = e, hdr_rx = h, data_rx = d\<rparr> ! CY_SPI_SYNC_BYTE = CY_SPI_SYNC_ACK"
  shows "ret (cyttsp4_spi_xfer bus log op reg buf n) = 0 \<and>
         bus_log (cyttsp4_spi_xfer bus log op reg buf n) = log @ [msg]"
  using assms by (simp add: xfer_run ack_rc_def)

text \<open>The data phase of a read on a bus that acknowledges and reports \<open>- EIO\<close>.\<close>

theorem ack_means_success_witness:
  "xfer_msg CY_SPI_RD_OP 0x10 (Some [0, 0, 0, 0]) 4 =
     Inr [hdr_xfer rd_header CY_SPI_RD_HEADER_BYTES,
          \<lparr>tx_buf = None, rx_buf = Some [0, 0, 0, 0], len = 4\<rparr>] \<and>
   status (mock_ack_err [[hdr_xfer rd_header CY_SPI_RD_HEADER_BYTES,
                          \<lparr>tx_buf = None, rx_buf = Some [0, 0, 0, 0], len = 4\<rparr>]]) < 0 \<and>
   ret (cyttsp4_spi_xfer mock_ack_err [] CY_SPI_RD_OP 0x10 (Some [0, 0, 0, 0]) 4) = 0"
proof -
  let ?msg = "[hdr_xfer rd_header CY_SPI_RD_HEADER_BYTES,
               \<lparr>tx_buf = None, rx_buf = Some [0, 0, 0, 0], len = 4\<rparr>]"
  have built: "xfer_msg CY_SPI_RD_OP 0x10 (Some [0, 0, 0, 0]) 4 = Inr ?msg"
    by (simp add: xfer_msg_def consts_defs)
  have reply: "mock_ack_err ([] @ [?msg]) =
      \<lparr>status = - EIO, hdr_rx = [0x62, 0x00], data_rx = [0x11, 0x22, 0x33, 0x44]\<rparr>"
    by (simp add: mock_ack_err_def)
  have ack: "rd_hdr_buf ?msg \<lparr>status = - EIO, hdr_rx = [0x62, 0x00],
      data_rx = [0x11, 0x22, 0x33, 0x44]\<rparr> ! CY_SPI_SYNC_BYTE = CY_SPI_SYNC_ACK"
    by (simp add: rd_hdr_buf_def hdr_xfer_def rx_into_def consts_defs)
  have neg: "status (mock_ack_err [?msg]) < 0"
    by (simp add: mock_ack_err_def EIO_def)
  from ack_means_success [where bus = mock_ack_err and log = "[]", OF built reply ack] built neg
  show ?thesis by simp
qed

text \<open>
  C2, what the code does where the peripheral does not acknowledge the address frame. The
  address phase returns 1, which the test \<^verbatim>\<open>rc < 0\<close> of line 242 lets through:
  the read goes on to the data phase and the bus sees two messages, not one.
\<close>

theorem read_block_continues_after_nack:
  "ret (cyttsp4_spi_xfer mock_nack_then_ack [] CY_SPI_WR_OP 0x10 None 0) = 1 \<and>
   length (bus_log (cyttsp4_spi_read mock_nack_then_ack [] 0x10 (Some [0, 0, 0, 0]) 4)) = 2 \<and>
   bus_log (cyttsp4_spi_read mock_nack_then_ack [] 0x10 (Some [0, 0, 0, 0]) 4) =
     [[\<lparr>tx_buf = Some [0x00, 0x10], rx_buf = Some [0, 0], len = 2\<rparr>],
      [\<lparr>tx_buf = Some [0x01, 0x00], rx_buf = Some [0, 0], len = 1\<rparr>,
       \<lparr>tx_buf = None, rx_buf = Some [0, 0, 0, 0], len = 4\<rparr>]]"
  by (simp add: model_defs consts_defs mock_nack_then_ack_def)

text \<open>
  C3, what the code does on the same input. Byte 0 of the response header of the address
  phase is not 0x62, the data phase is acknowledged, and the read returns 0 with the four
  bytes received, not \<open>- EIO\<close>.
\<close>

theorem read_block_success_after_nack:
  "rd_hdr_buf [hdr_xfer (wr_header 0x10) CY_SPI_WR_HEADER_BYTES]
     (mock_nack_then_ack [[hdr_xfer (wr_header 0x10) CY_SPI_WR_HEADER_BYTES]]) ! CY_SPI_SYNC_BYTE
     \<noteq> CY_SPI_SYNC_ACK \<and>
   cyttsp4_spi_read mock_nack_then_ack [] 0x10 (Some [0, 0, 0, 0]) 4 =
     \<lparr>ret = 0, buf_out = Some [0x11, 0x22, 0x33, 0x44],
      bus_log = [[\<lparr>tx_buf = Some [0x00, 0x10], rx_buf = Some [0, 0], len = 2\<rparr>],
                 [\<lparr>tx_buf = Some [0x01, 0x00], rx_buf = Some [0, 0], len = 1\<rparr>,
                  \<lparr>tx_buf = None, rx_buf = Some [0, 0, 0, 0], len = 4\<rparr>]]\<rparr>"
  by (simp add: model_defs consts_defs mock_nack_then_ack_def)

text \<open>
  C4, the statement that fails. A read with no destination buffer, and a read of 768
  bytes, both return \<open>- EINVAL\<close>, but only after one message has gone over the bus:
  the argument checks of a read are made in the data phase, after the address phase.
\<close>

theorem read_precheck_after_address_phase:
  "ret (cyttsp4_spi_read mock_ack [] 0x10 None 4) = - EINVAL \<and>
   length (bus_log (cyttsp4_spi_read mock_ack [] 0x10 None 4)) = 1 \<and>
   ret (cyttsp4_spi_read mock_ack [] 0x10 (Some (replicate 768 0)) 768) = - EINVAL \<and>
   length (bus_log (cyttsp4_spi_read mock_ack [] 0x10 (Some (replicate 768 0)) 768)) = 1"
proof -
  have "word_sless CY_SPI_DATA_SIZE (768 + CY_SPI_RD_HEADER_BYTES)" by (simp add: consts_defs)
  then show ?thesis by (simp add: read_rejected)
qed

text \<open>
  C4, as the code has it. For every length \<open>L\<close> with \<open>768 < 2 + L\<close>, the sum being an
  \<^verbatim>\<open>int\<close>, a write returns \<open>- EINVAL\<close> with no bus exchange at all. A read with no
  destination buffer, or of a length \<open>L\<close> with \<open>768 < 1 + L\<close>, returns \<open>- EINVAL\<close>
  after exactly one exchange, the header-only address frame, and leaves the buffer alone.
\<close>

theorem oversize_or_no_buffer:
  "(768 < sint n + 2 \<and> sint n + 2 < 2 ^ 31 \<longrightarrow>
      cyttsp4_spi_write bus log addr buf n = \<lparr>ret = - EINVAL, buf_out = buf, bus_log = log\<rparr>) \<and>
   (buf = None \<or> 768 < sint n + 1 \<and> sint n + 1 < 2 ^ 31 \<longrightarrow>
      cyttsp4_spi_read bus log addr buf n =
        \<lparr>ret = - EINVAL, buf_out = buf,
         bus_log = log @ [[\<lparr>tx_buf = Some [0x00, addr], rx_buf = Some [0, 0], len = 2\<rparr>]]\<rparr>)"
proof -
  have hdr: "hdr_xfer (wr_header addr) CY_SPI_WR_HEADER_BYTES =
      \<lparr>tx_buf = Some [0x00, addr], rx_buf = Some [0, 0], len = 2\<rparr>"
    by (simp add: hdr_xfer_def wr_header_eq consts_defs)
  show ?thesis
    using write_rejected [OF oversize_wr, of n bus log addr buf]
      read_rejected [of buf n bus log addr] oversize_rd [of n]
    by (auto simp: hdr)
qed

text \<open>A write of 767 bytes, a read without buffer and a read of 768 bytes.\<close>

theorem oversize_or_no_buffer_witness:
  "768 < sint (767 :: cint) + 2 \<and> sint (767 :: cint) + 2 < 2 ^ 31 \<and>
   cyttsp4_spi_write mock_ack [] 0x10 (Some (replicate 767 0)) 767 =
     \<lparr>ret = - EINVAL, buf_out = Some (replicate 767 0), bus_log = []\<rparr> \<and>
   cyttsp4_spi_read mock_ack [] 0x10 None 4 =
     \<lparr>ret = - EINVAL, buf_out = None,
      bus_log = [[\<lparr>tx_buf = Some [0x00, 0x10], rx_buf = Some [0, 0], len = 2\<rparr>]]\<rparr> \<and>
   768 < sint (768 :: cint) + 1 \<and> sint (768 :: cint) + 1 < 2 ^ 31 \<and>
   cyttsp4_spi_read mock_ack [] 0x10 (Some (replicate 768 0)) 768 =
     \<lparr>ret = - EINVAL, buf_out = Some (replicate 768 0),
      bus_log = [[\<lparr>tx_buf = Some [0x00, 0x10], rx_buf = Some [0, 0], len = 2\<rparr>]]\<rparr>"
proof -
  have a: "768 < sint (767 :: cint) + 2 \<and> sint (767 :: cint) + 2 < 2 ^ 31" by simp
  have b: "768 < sint (768 :: cint) + 1 \<and> sint (768 :: cint) + 1 < 2 ^ 31" by simp
  from oversize_or_no_buffer [of 767 mock_ack "[]" "0x10" "Some (replicate 767 0)"]
       oversize_or_no_buffer [of 4 mock_ack "[]" "0x10" None]
       oversize_or_no_buffer [of 768 mock_ack "[]" "0x10" "Some (replicate 768 0)"]
       a b
  show ?thesis by simp
qed

text \<open>
  C5, the statement that fails. The address 256 lies in 256 to 511; passed for the
  \<^verbatim>\<open>u8\<close> register parameter it gives the header \<open>[0x00, 0x00]\<close>, in which the
  extended-address bit 0x02 is clear.
\<close>

theorem no_extended_bit_at_256:
  "255 < (256 :: nat) \<and> wr_header (u8_arg 256) = [0x00, 0x00] \<and>
   (wr_header (u8_arg 256) ! 0) AND CY_SPI_A8_BIT = 0"
  by (simp add: wr_header_eq u8_arg_def consts_defs)

text \<open>
  C5, as the code has it. The register of a write transfer is an 8-bit value, at most
  255. The header transfer sends 2 bytes, byte 0 = 0x00 and byte 1 = the register; the
  extended-address bit is never set. A larger address \<open>a\<close> reaches the routine only
  reduced modulo 256, and the header is then \<open>[0x00, a mod 256]\<close>.
\<close>

theorem write_header_is_plain:
  "(xfer_msg CY_SPI_WR_OP reg buf n = Inr msg \<longrightarrow>
      tx_buf (hd msg) = Some [0x00, reg] \<and> len (hd msg) = 2) \<and>
   wr_header reg = [0x00, reg] \<and>
   (wr_header reg ! 0) AND CY_SPI_A8_BIT = 0 \<and>
   unat reg \<le> 255 \<and>
   wr_header (u8_arg a) = [0x00, word_of_nat (a mod 256)]"
proof -
  have "unat reg < 2 ^ LENGTH(8)" by (rule unsigned_less)
  then have le: "unat reg \<le> 255" by simp
  have "(word_of_nat (a mod 256) :: u8) = word_of_nat a"
    by (simp add: word_of_nat_eq_iff take_bit_eq_mod)
  then have arg: "wr_header (u8_arg a) = [0x00, word_of_nat (a mod 256)]"
    by (simp add: wr_header_eq u8_arg_def)
  have "tx_buf (hd msg) = Some [0x00, reg] \<and> len (hd msg) = 2"
    if "xfer_msg CY_SPI_WR_OP reg buf n = Inr msg"
    using wr_msg_hd [OF that] by (simp add: hdr_xfer_def wr_header_eq consts_defs)
  with le arg show ?thesis by (simp add: wr_header_eq consts_defs)
qed

text \<open>Register 0xFF with a two-byte payload, and the address 0x1FF.\<close>

theorem write_header_is_plain_witness:
  "xfer_msg CY_SPI_WR_OP 0xFF (Some [0xAA, 0xBB]) 2 =
     Inr [hdr_xfer (wr_header 0xFF) CY_SPI_WR_HEADER_BYTES,
          \<lparr>tx_buf = Some [0xAA, 0xBB], rx_buf = None, len = 2\<rparr>] \<and>
   tx_buf (hd [hdr_xfer (wr_header 0xFF) CY_SPI_WR_HEADER_BYTES,
          \<lparr>tx_buf = Some [0xAA, 0xBB], rx_buf = None, len = 2\<rparr>]) = Some [0x00, 0xFF] \<and>
   wr_header (u8_arg 0x1FF) = [0x00, 0xFF]"
proof -
  let ?msg = "[hdr_xfer (wr_header 0xFF) CY_SPI_WR_HEADER_BYTES,
          \<lparr>tx_buf = Some [0xAA, 0xBB], rx_buf = None, len = 2\<rparr>]"
  have built: "xfer_msg CY_SPI_WR_OP 0xFF (Some [0xAA, 0xBB]) 2 = Inr ?msg"
    by (simp add: xfer_msg_def consts_defs)
  from write_header_is_plain [of "0xFF" "Some [0xAA, 0xBB]" 2 ?msg "0x1FF"] built
  show ?thesis by (simp add: hdr_xfer_def)
qed

text \<open>
  C6, the statement that fails. The address 512 is greater than 511; passed for the
  \<^verbatim>\<open>u8\<close> address parameter, a write and a read with it succeed on an acknowledging
  bus, and the write goes to register 0.
\<close>

theorem address_512_accepted:
  "511 < (512 :: nat) \<and>
   cyttsp4_spi_write mock_ack [] (u8_arg 512) (Some [0xAA, 0xBB]) 2 =
     \<lparr>ret = 0, buf_out = Some [0xAA, 0xBB],
      bus_log = [[\<lparr>tx_buf = Some [0x00, 0x00], rx_buf = Some [0, 0], len = 2\<rparr>,
                  \<lparr>tx_buf = Some [0xAA, 0xBB], rx_buf = None, len = 2\<rparr>]]\<rparr> \<and>
   ret (cyttsp4_spi_read mock_ack [] (u8_arg 512) (Some [0, 0, 0, 0]) 4) = 0"
  by (simp add: model_defs consts_defs mock_ack_def u8_arg_def)

text \<open>
  C6, as the code has it. A register address is an 8-bit value, at most 255, and no
  address is ever refused: a write returns \<open>- EINVAL\<close> exactly when its length fails
  the size check, a read exactly when it has no buffer or its length fails the size
  check, whatever the address. An address \<open>a\<close> above 255 is reduced to \<open>a mod 256\<close>
  by the parameter type.
\<close>

theorem address_never_rejected:
  "(ret (cyttsp4_spi_write bus log addr buf n) = - EINVAL) =
     word_sless CY_SPI_DATA_SIZE (n + CY_SPI_WR_HEADER_BYTES) \<and>
   (ret (cyttsp4_spi_read bus log addr buf n) = - EINVAL) =
     (buf = None \<or> word_sless CY_SPI_DATA_SIZE (n + CY_SPI_RD_HEADER_BYTES)) \<and>
   unat addr \<le> 255 \<and>
   unat (u8_arg a) = a mod 256"
proof -
  have "unat addr < 2 ^ LENGTH(8)" by (rule unsigned_less)
  then have "unat addr \<le> 255" by simp
  moreover have "unat (u8_arg a) = a mod 256"
    by (simp add: u8_arg_def unat_of_nat)
  ultimately show ?thesis
    by (simp only: write_einval_iff read_einval_iff)
qed

text \<open>
  C7. A write of \<open>data\<close> that fits the frame (2 header bytes and the payload are at
  most 768 bytes) submits exactly one message of two chained transfers: the header
  \<open>[0x00, addr]\<close>, received into the response header, then the payload itself,
  transmit-only (no receive buffer); the caller's buffer is left as it was.
\<close>

theorem write_block_single_exchange:
  assumes "length data + 2 \<le> 768"
  shows "bus_log (cyttsp4_spi_write bus log addr (Some data) (word_of_nat (length data))) =
           log @ [[\<lparr>tx_buf = Some [0x00, addr], rx_buf = Some [0, 0], len = 2\<rparr>,
                   \<lparr>tx_buf = Some data, rx_buf = None, len = word_of_nat (length data)\<rparr>]] \<and>
         buf_out (cyttsp4_spi_write bus log addr (Some data) (word_of_nat (length data))) = Some data"
  using write_block_exchange [OF fits_data [OF assms]] by simp

theorem write_block_single_exchange_witness:
  "length [0xAA, 0xBB :: u8] + 2 \<le> 768 \<and>
   bus_log (cyttsp4_spi_write mock_ack [] 0x10 (Some [0xAA, 0xBB]) 2) =
     [[\<lparr>tx_buf = Some [0x00, 0x10], rx_buf = Some [0, 0], len = 2\<rparr>,
       \<lparr>tx_buf = Some [0xAA, 0xBB], rx_buf = None, len = 2\<rparr>]] \<and>
   buf_out (cyttsp4_spi_write mock_ack [] 0x10 (Some [0xAA, 0xBB]) 2) = Some [0xAA, 0xBB] \<and>
   ret (cyttsp4_spi_write mock_ack [] 0x10 (Some [0xAA, 0xBB]) 2) = 0"
proof -
  have small: "length [0xAA, 0xBB :: u8] + 2 \<le> 768" by simp
  have r: "ret (cyttsp4_spi_write mock_ack [] 0x10 (Some [0xAA, 0xBB]) 2) = 0"
    by (simp add: model_defs consts_defs mock_ack_def)
  from write_block_single_exchange [OF small, where bus = mock_ack and log = "[]" and addr = "0x10"] small r
  show ?thesis by simp
qed

text \<open>
  C9. Once the transfer routine has submitted its message, its return code is a function
  of byte 0 of the response header alone (0 when it is 0x62, 1 otherwise). The entry
  points \<^verbatim>\<open>cyttsp4_spi_read\<close> and \<^verbatim>\<open>cyttsp4_spi_write\<close> return nothing but 0,
  \<open>- EIO\<close> and \<open>- EINVAL\<close>, and changing the return codes of the bus in any way
  \<open>e\<close> changes nothing of what they return or do: a transport error code is never
  passed on.
\<close>

theorem transport_code_never_returned:
  "(xfer_msg op reg buf n = Inr msg \<longrightarrow>
      ret (cyttsp4_spi_xfer bus log op reg buf n) =
        (if rd_hdr_buf msg (bus (log @ [msg])) ! CY_SPI_SYNC_BYTE = CY_SPI_SYNC_ACK then 0 else 1)) \<and>
   ret (cyttsp4_spi_read bus log addr buf n) \<in> {0, - EIO, - EINVAL} \<and>
   ret (cyttsp4_spi_write bus log addr buf n) \<in> {0, - EIO, - EINVAL} \<and>
   cyttsp4_spi_read (\<lambda>h. (bus h)\<lparr>status := e h\<rparr>) log addr buf n = cyttsp4_spi_read bus log addr buf n \<and>
   cyttsp4_spi_write (\<lambda>h. (bus h)\<lparr>status := e h\<rparr>) log addr buf n = cyttsp4_spi_write bus log addr buf n"
  by (simp only: read_ret_cases write_ret_cases read_status_irrelevant write_status_irrelevant)
     (simp add: xfer_run ack_rc_def)

text \<open>A write on a bus that times out: the code \<open>- 110\<close> is replaced by \<open>- EIO\<close>.\<close>

theorem transport_code_never_returned_witness:
  "xfer_msg CY_SPI_WR_OP 0x10 (Some [0xAA, 0xBB]) 2 =
     Inr [hdr_xfer (wr_header 0x10) CY_SPI_WR_HEADER_BYTES,
          \<lparr>tx_buf = Some [0xAA, 0xBB], rx_buf = None, len = 2\<rparr>] \<and>
   status (mock_nack_timeout [[hdr_xfer (wr_header 0x10) CY_SPI_WR_HEADER_BYTES,
          \<lparr>tx_buf = Some [0xAA, 0xBB], rx_buf = None, len = 2\<rparr>]]) = - 110 \<and>
   ret (cyttsp4_spi_xfer mock_nack_timeout [] CY_SPI_WR_OP 0x10 (Some [0xAA, 0xBB]) 2) = 1 \<and>
   ret (cyttsp4_spi_write mock_nack_timeout [] 0x10 (Some [0xAA, 0xBB]) 2) = - EIO"
proof -
  let ?msg = "[hdr_xfer (wr_header 0x10) CY_SPI_WR_HEADER_BYTES,
          \<lparr>tx_buf = Some [0xAA, 0xBB], rx_buf = None, len = 2\<rparr>]"
  have built: "xfer_msg CY_SPI_WR_OP 0x10 (Some [0xAA, 0xBB]) 2 = Inr ?msg"
    by (simp add: xfer_msg_def consts_defs)
  have nack: "rd_hdr_buf ?msg (mock_nack_timeout ([] @ [?msg])) ! CY_SPI_SYNC_BYTE \<noteq> CY_SPI_SYNC_ACK"
    by (simp add: rd_hdr_buf_def hdr_xfer_def rx_into_def mock_nack_timeout_def consts_defs)
  have st: "status (mock_nack_timeout [?msg]) = - 110"
    by (simp add: mock_nack_timeout_def)
  have xf: "ret (cyttsp4_spi_xfer mock_nack_timeout [] CY_SPI_WR_OP 0x10 (Some [0xAA, 0xBB]) 2) = 1"
    using transport_code_never_returned [where bus = mock_nack_timeout and log = "[]"
        and op = CY_SPI_WR_OP and reg = "0x10" and buf = "Some [0xAA, 0xBB]" and n = 2 and msg = ?msg]
      built nack by simp
  then have "ret (cyttsp4_spi_write mock_nack_timeout [] 0x10 (Some [0xAA, 0xBB]) 2) = - EIO"
    by (simp add: write_block_unfold)
  with built st xf show ?thesis by simp
qed

text \<open>
  C10. A write transfer with a null payload pointer submits the header transfer alone,
  whatever length is passed with it, provided the length passes the size check; the size
  check still looks at that length and rejects the call, before any exchange, when it is
  too large. The first message of every \<^verbatim>\<open>cyttsp4_spi_read_block_data\<close> is this
  header-only write for the same register.
\<close>

theorem null_payload_write_is_header_only:
  "(\<not> word_sless CY_SPI_DATA_SIZE (n + CY_SPI_WR_HEADER_BYTES) \<longrightarrow>
      bus_log (cyttsp4_spi_xfer bus log CY_SPI_WR_OP reg None n) =
        log @ [[\<lparr>tx_buf = Some (wr_header reg), rx_buf = Some [0, 0], len = 2\<rparr>]]) \<and>
   (word_sless CY_SPI_DATA_SIZE (n + CY_SPI_WR_HEADER_BYTES) \<longrightarrow>
      cyttsp4_spi_xfer bus log CY_SPI_WR_OP reg None n =
        \<lparr>ret = - EINVAL, buf_out = None, bus_log = log\<rparr>) \<and>
   take (Suc (length log)) (bus_log (cyttsp4_spi_read_block_data bus log reg m data)) =
     log @ [[\<lparr>tx_buf = Some (wr_header reg), rx_buf = Some [0, 0], len = 2\<rparr>]]"
proof -
  have hdr: "hdr_xfer (wr_header reg) CY_SPI_WR_HEADER_BYTES =
      \<lparr>tx_buf = Some (wr_header reg), rx_buf = Some [0, 0], len = 2\<rparr>"
    by (simp add: hdr_xfer_def consts_defs)
  have fits: "bus_log (cyttsp4_spi_xfer bus log CY_SPI_WR_OP reg None n) =
        log @ [[\<lparr>tx_buf = Some (wr_header reg), rx_buf = Some [0, 0], len = 2\<rparr>]]"
    if "\<not> word_sless CY_SPI_DATA_SIZE (n + CY_SPI_WR_HEADER_BYTES)"
  proof -
    from that have "xfer_msg CY_SPI_WR_OP reg None n = Inr [hdr_xfer (wr_header reg) CY_SPI_WR_HEADER_BYTES]"
      by (simp add: null_write_msg)
    then show ?thesis by (simp add: xfer_run hdr)
  qed
  have over: "cyttsp4_spi_xfer bus log CY_SPI_WR_OP reg None n =
        \<lparr>ret = - EINVAL, buf_out = None, bus_log = log\<rparr>"
    if "word_sless CY_SPI_DATA_SIZE (n + CY_SPI_WR_HEADER_BYTES)"
  proof -
    from that have "xfer_msg CY_SPI_WR_OP reg None n = Inl (- EINVAL)"
      by (simp add: null_write_msg)
    then show ?thesis by (rule xfer_reject)
  qed
  from fits over read_block_log_prefix [of log bus reg m data] hdr show ?thesis by simp
qed

text \<open>Lengths 5 and 767 with a null buffer, and a 4-byte read of register 0x10.\<close>

theorem null_payload_write_is_header_only_witness:
  "\<not> word_sless CY_SPI_DATA_SIZE (5 + CY_SPI_WR_HEADER_BYTES) \<and>
   bus_log (cyttsp4_spi_xfer mock_ack [] CY_SPI_WR_OP 0x10 None 5) =
     [[\<lparr>tx_buf = Some [0x00, 0x10], rx_buf = Some [0, 0], len = 2\<rparr>]] \<and>
   word_sless CY_SPI_DATA_SIZE (767 + CY_SPI_WR_HEADER_BYTES) \<and>
   cyttsp4_spi_xfer mock_ack [] CY_SPI_WR_OP 0x10 None 767 =
     \<lparr>ret = - EINVAL, buf_out = None, bus_log = []\<rparr> \<and>
   take 1 (bus_log (cyttsp4_spi_read_block_data mock_ack [] 0x10 4 (Some [0, 0, 0, 0]))) =
     [[\<lparr>tx_buf = Some [0x00, 0x10], rx_buf = Some [0, 0], len = 2\<rparr>]]"
proof -
  have a: "\<not> word_sless CY_SPI_DATA_SIZE (5 + CY_SPI_WR_HEADER_BYTES)"
    by (simp add: consts_defs)
  have b: "word_sless CY_SPI_DATA_SIZE (767 + CY_SPI_WR_HEADER_BYTES)"
    by (simp add: consts_defs)
  have h: "wr_header 0x10 = [0x00, 0x10]" by (simp add: wr_header_eq)
  from null_payload_write_is_header_only [of 5 mock_ack "[]" "0x10" 4 "Some [0, 0, 0, 0]"]
       null_payload_write_is_header_only [of 767 mock_ack "[]" "0x10" 4 "Some [0, 0, 0, 0]"]
       a b h
  show ?thesis by simp
qed

end
